theory Spec2Isabelle
  imports Complex_Main "HOL-Library.AList"
begin

section \<open>Car marketplace backend: documents, store and request handlers\<close>

text \<open>
  The handlers of \<^verbatim>\<open>main.py\<close> over an explicit document store. A handler takes the
  store and returns its outcome together with the store it leaves behind; an exception
  that reaches the framework is the \<open>Inl\<close> branch of the outcome.

  Python's \<^verbatim>\<open>float\<close> is read as the real number it denotes (\<open>real\<close>): the model covers
  finite amounts and prices, on which comparison and floor division by ten are exact
  up to the magnitude at which a float stops holding every integer.
\<close>

subsection \<open>BSON values and documents\<close>

type_synonym oid = nat
  \<comment> \<open>the value of a 12-byte \<^verbatim>\<open>ObjectId\<close>, read as a number\<close>

datatype bval =
    VNull
  | VBool bool
  | VInt int
  | VNum real
  | VStr string
  | VOid oid
  | VList "bval list"

type_synonym doc = "(string \<times> bval) list"
  \<comment> \<open>a Python dict / BSON document without its \<^verbatim>\<open>_id\<close>\<close>

type_synonym collection = "(oid \<times> doc) list"
  \<comment> \<open>documents in natural order, each with its \<^verbatim>\<open>_id\<close>\<close>

definition get_field :: "oid \<times> doc \<Rightarrow> string \<Rightarrow> bval option" where
  "get_field kd key = (if key = ''_id'' then Some (VOid (fst kd)) else map_of (snd kd) key)"

fun num_of :: "bval \<Rightarrow> real option" where
  "num_of (VInt i) = Some (of_int i)"
| "num_of (VNum r) = Some r"
| "num_of _ = None"

subsection \<open>Python arithmetic used by the handlers\<close>

definition py_floordiv :: "real \<Rightarrow> real \<Rightarrow> real" where
  \<comment> \<open>\<^verbatim>\<open>a // b\<close> on floats, for a divisor that is not zero\<close>
  "py_floordiv a b = of_int \<lfloor>a / b\<rfloor>"

definition py_int :: "real \<Rightarrow> int" where
  \<comment> \<open>\<^verbatim>\<open>int(x)\<close>: truncation toward zero\<close>
  "py_int x = (if 0 \<le> x then \<lfloor>x\<rfloor> else \<lceil>x\<rceil>)"

definition earned_points :: "real \<Rightarrow> int" where
  \<comment> \<open>\<^verbatim>\<open>pts = int(max(1, tx.amount // 10))\<close>\<close>
  "earned_points amount = py_int (max 1 (py_floordiv amount 10))"

subsection \<open>Query filters of the document store\<close>

text \<open>
  The filters the handlers build, with the matching rules of the store for them: a
  condition on a field holds when the field's value satisfies it or, for an array, when
  one of its elements does; numbers compare by value whatever their BSON type.
\<close>

datatype cond =
    Eq bval
    \<comment> \<open>\<^verbatim>\<open>{field: value}\<close>\<close>
  | RegexI string
    \<comment> \<open>\<^verbatim>\<open>{field: {"$regex": p, "$options": "i"}}\<close>\<close>
  | Range "real option" "real option"
    \<comment> \<open>\<^verbatim>\<open>{field: price_q}\<close>, \<^verbatim>\<open>price_q\<close> holding \<^verbatim>\<open>$gte\<close> and \<^verbatim>\<open>$lte\<close> when set\<close>

datatype clause =
    Field cond
  | Or "(string \<times> cond) list list"
    \<comment> \<open>\<^verbatim>\<open>{"$or": [dict, ...]}\<close>\<close>

type_synonym flt = "(string \<times> clause) list"

fun elems :: "bval option \<Rightarrow> bval list" where
  "elems None = []"
| "elems (Some (VList vs)) = VList vs # vs"
| "elems (Some v) = [v]"

definition val_eq :: "bval \<Rightarrow> bval \<Rightarrow> bool" where
  "val_eq v w = (case (num_of v, num_of w) of (Some a, Some b) \<Rightarrow> a = b | _ \<Rightarrow> v = w)"

definition is_ge :: "real \<Rightarrow> bval \<Rightarrow> bool" where
  "is_ge a w = (case num_of w of Some r \<Rightarrow> a \<le> r | None \<Rightarrow> False)"

definition is_le :: "real \<Rightarrow> bval \<Rightarrow> bool" where
  "is_le b w = (case num_of w of Some r \<Rightarrow> r \<le> b | None \<Rightarrow> False)"

definition is_match :: "(string \<Rightarrow> string \<Rightarrow> bool) \<Rightarrow> string \<Rightarrow> bval \<Rightarrow> bool" where
  "is_match rx p w = (case w of VStr t \<Rightarrow> rx p t | _ \<Rightarrow> False)"

fun cond_holds :: "(string \<Rightarrow> string \<Rightarrow> bool) \<Rightarrow> cond \<Rightarrow> bval option \<Rightarrow> bool" where
  "cond_holds rx (Eq v) x = ((v = VNull \<and> x = None) \<or> list_ex (val_eq v) (elems x))"
| "cond_holds rx (RegexI p) x = list_ex (is_match rx p) (elems x)"
| "cond_holds rx (Range lo hi) x =
     ((case lo of None \<Rightarrow> True | Some a \<Rightarrow> list_ex (is_ge a) (elems x)) \<and>
      (case hi of None \<Rightarrow> True | Some b \<Rightarrow> list_ex (is_le b) (elems x)))"

fun clause_holds ::
  "(string \<Rightarrow> string \<Rightarrow> bool) \<Rightarrow> oid \<times> doc \<Rightarrow> string \<times> clause \<Rightarrow> bool" where
  "clause_holds rx kd (key, Field c) = cond_holds rx c (get_field kd key)"
| "clause_holds rx kd (key, Or alts) =
     list_ex (list_all (\<lambda>fc. cond_holds rx (snd fc) (get_field kd (fst fc)))) alts"

definition doc_matches :: "(string \<Rightarrow> string \<Rightarrow> bool) \<Rightarrow> flt \<Rightarrow> oid \<times> doc \<Rightarrow> bool" where
  "doc_matches rx f kd = list_all (clause_holds rx kd) f"

subsection \<open>The store and its operations\<close>

text \<open>
  \<open>regex_i\<close> is the store's regular-expression search with the option \<^verbatim>\<open>i\<close>:
  \<open>regex_i s p t\<close> says that pattern \<open>p\<close> finds a match in \<open>t\<close>, letter case
  ignored. \<open>next_oid\<close> stands for the identifier an insertion is given.
\<close>

record store =
  colls :: "string \<Rightarrow> collection"
  regex_i :: "string \<Rightarrow> string \<Rightarrow> bool"
  next_oid :: oid

definition find :: "store \<Rightarrow> string \<Rightarrow> flt \<Rightarrow> collection" where
  "find s name f = filter (doc_matches (regex_i s) f) (colls s name)"

definition find_one :: "store \<Rightarrow> string \<Rightarrow> flt \<Rightarrow> (oid \<times> doc) option" where
  "find_one s name f = (case find s name f of [] \<Rightarrow> None | kd # _ \<Rightarrow> Some kd)"

definition apply_set :: "doc \<Rightarrow> doc \<Rightarrow> doc" where
  \<comment> \<open>\<^verbatim>\<open>{"$set": upd}\<close> on a document\<close>
  "apply_set upd d = fold (\<lambda>kv. AList.update (fst kv) (snd kv)) upd d"

fun update_first :: "(oid \<times> doc \<Rightarrow> bool) \<Rightarrow> doc \<Rightarrow> collection \<Rightarrow> collection" where
  "update_first P upd [] = []"
| "update_first P upd (kd # rest) =
     (if P kd then (fst kd, apply_set upd (snd kd)) # rest
      else kd # update_first P upd rest)"

definition update_one :: "store \<Rightarrow> string \<Rightarrow> flt \<Rightarrow> doc \<Rightarrow> nat \<times> store" where
  \<comment> \<open>returns \<^verbatim>\<open>matched_count\<close> and the store\<close>
  "update_one s name f upd =
     (let P = doc_matches (regex_i s) f
      in (if list_ex P (colls s name) then 1 else 0,
          s\<lparr>colls := (colls s)(name := update_first P upd (colls s name))\<rparr>))"

definition insert_one :: "store \<Rightarrow> string \<Rightarrow> doc \<Rightarrow> oid \<times> store" where
  "insert_one s name d =
     (next_oid s,
      s\<lparr>colls := (colls s)(name := colls s name @ [(next_oid s, d)]),
        next_oid := Suc (next_oid s)\<rparr>)"

subsection \<open>Identifiers as strings\<close>

definition hex_val :: "char \<Rightarrow> nat option" where
  "hex_val c =
     (let n = (of_char c :: nat)
      in if 48 \<le> n \<and> n \<le> 57 then Some (n - 48)
         else if 97 \<le> n \<and> n \<le> 102 then Some (n - 87)
         else if 65 \<le> n \<and> n \<le> 70 then Some (n - 55)
         else None)"

fun hex_num :: "nat \<Rightarrow> string \<Rightarrow> nat option" where
  "hex_num acc [] = Some acc"
| "hex_num acc (c # cs) =
     (case hex_val c of None \<Rightarrow> None | Some d \<Rightarrow> hex_num (16 * acc + d) cs)"

definition ObjectId :: "string \<Rightarrow> oid option" where
  \<comment> \<open>\<^verbatim>\<open>ObjectId(s)\<close>: 24 hexadecimal digits, \<open>None\<close> for \<^verbatim>\<open>InvalidId\<close>. A string that
      \<^verbatim>\<open>bytes.fromhex\<close> takes only by skipping white space counts as invalid here.\<close>
  "ObjectId s = (if length s = 24 then hex_num 0 s else None)"

definition hex_char :: "nat \<Rightarrow> char" where
  "hex_char d = char_of (if d < 10 then 48 + d else 87 + d)"

fun hex_str :: "nat \<Rightarrow> nat \<Rightarrow> string" where
  "hex_str 0 n = []"
| "hex_str (Suc w) n = hex_str w (n div 16) @ [hex_char (n mod 16)]"

definition oid_str :: "oid \<Rightarrow> string" where
  \<comment> \<open>\<^verbatim>\<open>str(oid)\<close>\<close>
  "oid_str k = hex_str 24 k"

definition create_document :: "store \<Rightarrow> string \<Rightarrow> doc \<Rightarrow> string \<times> store" where
  \<comment> \<open>Modelled from the spec: \<^verbatim>\<open>create_document\<close> of \<^verbatim>\<open>database.py\<close>, which is not among
      the sources. The spec gives the adapter \<^verbatim>\<open>insert(collection, doc) -> id\<close>; the
      document of a schema object is the dict of its fields.\<close>
  "create_document s name d = (let (k, s') = insert_one s name d in (oid_str k, s'))"

subsection \<open>Schemas\<close>

text \<open>
  The models of \<^verbatim>\<open>schemas.py\<close> that the handlers below use, each with the dict of its
  fields. A \<^verbatim>\<open>Literal\<close> field is a string here; the framework has checked it before
  the handler runs.
\<close>

record car =
  car_owner_email :: string
  car_title :: string
  car_brand :: string
  car_model :: string
  car_year :: int
  car_images :: "string list"
  car_location :: string
  car_car_type :: string
  car_transmission :: string
  car_fuel :: string
  car_mileage :: "int option"
  car_color :: "string option"
  car_for_rent :: bool
  car_for_sale :: bool
  car_price_per_day :: "real option"
  car_sale_price :: "real option"
  car_description :: "string option"
  car_available :: bool

record order =
  ord_order_type :: string
  ord_car_id :: string
  ord_customer_email :: string
  ord_owner_email :: string
  ord_status :: string
  ord_start_date :: "string option"
  ord_end_date :: "string option"
  ord_pickup_location :: "string option"
  ord_total_amount :: real

record transaction =
  tx_order_id :: string
  tx_customer_email :: string
  tx_owner_email :: string
  tx_amount :: real
  tx_currency :: string
  tx_type :: string
  tx_description :: "string option"

record notification =
  ntf_email :: string
  ntf_title :: string
  ntf_message :: string
  ntf_read :: bool

record reward =
  rwd_email :: string
  rwd_points :: int
  rwd_tier :: string

definition opt :: "('a \<Rightarrow> bval) \<Rightarrow> 'a option \<Rightarrow> bval" where
  "opt f x = (case x of None \<Rightarrow> VNull | Some v \<Rightarrow> f v)"

definition car_dump :: "car \<Rightarrow> doc" where
  "car_dump c =
     [(''owner_email'', VStr (car_owner_email c)),
      (''title'', VStr (car_title c)),
      (''brand'', VStr (car_brand c)),
      (''model'', VStr (car_model c)),
      (''year'', VInt (car_year c)),
      (''images'', VList (map VStr (car_images c))),
      (''location'', VStr (car_location c)),
      (''car_type'', VStr (car_car_type c)),
      (''transmission'', VStr (car_transmission c)),
      (''fuel'', VStr (car_fuel c)),
      (''mileage'', opt VInt (car_mileage c)),
      (''color'', opt VStr (car_color c)),
      (''for_rent'', VBool (car_for_rent c)),
      (''for_sale'', VBool (car_for_sale c)),
      (''price_per_day'', opt VNum (car_price_per_day c)),
      (''sale_price'', opt VNum (car_sale_price c)),
      (''description'', opt VStr (car_description c)),
      (''available'', VBool (car_available c))]"

definition order_dump :: "order \<Rightarrow> doc" where
  "order_dump ord =
     [(''order_type'', VStr (ord_order_type ord)),
      (''car_id'', VStr (ord_car_id ord)),
      (''customer_email'', VStr (ord_customer_email ord)),
      (''owner_email'', VStr (ord_owner_email ord)),
      (''status'', VStr (ord_status ord)),
      (''start_date'', opt VStr (ord_start_date ord)),
      (''end_date'', opt VStr (ord_end_date ord)),
      (''pickup_location'', opt VStr (ord_pickup_location ord)),
      (''total_amount'', VNum (ord_total_amount ord))]"

definition transaction_dump :: "transaction \<Rightarrow> doc" where
  "transaction_dump tx =
     [(''order_id'', VStr (tx_order_id tx)),
      (''customer_email'', VStr (tx_customer_email tx)),
      (''owner_email'', VStr (tx_owner_email tx)),
      (''amount'', VNum (tx_amount tx)),
      (''currency'', VStr (tx_currency tx)),
      (''type'', VStr (tx_type tx)),
      (''description'', opt VStr (tx_description tx))]"

definition notification_dump :: "notification \<Rightarrow> doc" where
  "notification_dump n =
     [(''email'', VStr (ntf_email n)),
      (''title'', VStr (ntf_title n)),
      (''message'', VStr (ntf_message n)),
      (''read'', VBool (ntf_read n))]"

definition reward_dump :: "reward \<Rightarrow> doc" where
  "reward_dump r =
     [(''email'', VStr (rwd_email r)),
      (''points'', VInt (rwd_points r)),
      (''tier'', VStr (rwd_tier r))]"

subsection \<open>Handlers\<close>

datatype error =
    NotFound
    \<comment> \<open>\<^verbatim>\<open>HTTPException(status_code=404)\<close>\<close>
  | Validation
    \<comment> \<open>\<^verbatim>\<open>HTTPException(status_code=400)\<close>\<close>
  | InvalidId
    \<comment> \<open>\<^verbatim>\<open>bson.errors.InvalidId\<close> out of \<^verbatim>\<open>ObjectId(...)\<close>, not caught\<close>
  | TypeError
    \<comment> \<open>\<^verbatim>\<open>+\<close> on a stored value that is not a number, not caught\<close>

definition with_id :: "oid \<times> doc \<Rightarrow> doc" where
  \<comment> \<open>\<^verbatim>\<open>c["id"] = str(c.pop("_id"))\<close>\<close>
  "with_id kd = AList.update ''id'' (VStr (oid_str (fst kd))) (snd kd)"

definition if_str :: "string option \<Rightarrow> (string \<Rightarrow> flt \<Rightarrow> flt) \<Rightarrow> flt \<Rightarrow> flt" where
  \<comment> \<open>\<^verbatim>\<open>if x: ...\<close> on an optional string: \<^verbatim>\<open>None\<close> and \<^verbatim>\<open>""\<close> are false\<close>
  "if_str x body f = (case x of None \<Rightarrow> f | Some p \<Rightarrow> if p = [] then f else body p f)"

definition create_car :: "store \<Rightarrow> car \<Rightarrow> (error + string) \<times> store" where
  "create_car s c =
     (if \<not> (car_for_sale c \<or> car_for_rent c) then (Inl Validation, s)
      else let (car_id, s') = create_document s ''car'' (car_dump c)
           in (Inr car_id, s'))"



definition create_order :: "store \<Rightarrow> order \<Rightarrow> (error + string) \<times> store" where
  "create_order s ord =
     (case ObjectId (ord_car_id ord) of
        None \<Rightarrow> (Inl InvalidId, s)
      | Some k \<Rightarrow>
          (case find_one s ''car'' [(''_id'', Field (Eq (VOid k)))] of
             None \<Rightarrow> (Inl NotFound, s)
           | Some c \<Rightarrow>
               let (order_id, s1) = create_document s ''order'' (order_dump ord);
                   (ntf_id, s2) = create_document s1 ''notification''
                     (notification_dump
                       \<lparr>ntf_email = ord_owner_email ord,
                        ntf_title = ''New order'',
                        ntf_message = ''You have a new '' @ ord_order_type ord @ '' request'',
                        ntf_read = False\<rparr>)
               in (Inr order_id, s2)))"

definition list_orders :: "store option \<Rightarrow> string option \<Rightarrow> string option \<Rightarrow> doc list" where
  "list_orders db email role =
     (let f = [];
          f = (if role = Some ''customer''
               then if_str email (\<lambda>e. AList.update ''customer_email'' (Field (Eq (VStr e)))) f
               else f);
          f = (if role = Some ''owner''
               then if_str email (\<lambda>e. AList.update ''owner_email'' (Field (Eq (VStr e)))) f
               else f);
          orders = (case db of Some s \<Rightarrow> find s ''order'' f | None \<Rightarrow> [])
      in map with_id orders)"


definition py_add :: "bval \<Rightarrow> int \<Rightarrow> bval option" where
  \<comment> \<open>\<^verbatim>\<open>v + pts\<close> for an int \<^verbatim>\<open>pts\<close>; \<open>None\<close> for \<^verbatim>\<open>TypeError\<close>\<close>
  "py_add v pts =
     (case v of
        VInt p \<Rightarrow> Some (VInt (p + pts))
      | VNum r \<Rightarrow> Some (VNum (r + of_int pts))
      | VBool b \<Rightarrow> Some (VInt ((if b then 1 else 0) + pts))
      | _ \<Rightarrow> None)"

definition tier_of :: "real \<Rightarrow> string" where
  "tier_of new_points =
     (if new_points \<ge> 200 then ''Platinum''
      else if new_points \<ge> 120 then ''Gold''
      else if new_points \<ge> 60 then ''Silver''
      else ''Bronze'')"

definition create_transaction :: "store \<Rightarrow> transaction \<Rightarrow> (error + string) \<times> store" where
  "create_transaction s tx =
     (let (tx_id, s1) = create_document s ''transaction'' (transaction_dump tx);
          pts = earned_points (tx_amount tx)
      in case find_one s1 ''reward'' [(''email'', Field (Eq (VStr (tx_customer_email tx))))] of
           Some existing \<Rightarrow>
             (case py_add (case get_field existing ''points'' of None \<Rightarrow> VInt 0 | Some v \<Rightarrow> v) pts of
                None \<Rightarrow> (Inl TypeError, s1)
              | Some new_points \<Rightarrow>
                  let tier = tier_of (case num_of new_points of Some r \<Rightarrow> r | None \<Rightarrow> 0);
                      (n, s2) = update_one s1 ''reward''
                        [(''_id'', Field (Eq (VOid (fst existing))))]
                        [(''points'', new_points), (''tier'', VStr tier)]
                  in (Inr tx_id, s2))
         | None \<Rightarrow>
             let (rwd_id, s2) = create_document s1 ''reward''
                   (reward_dump \<lparr>rwd_email = tx_customer_email tx, rwd_points = pts,
                                 rwd_tier = ''Bronze''\<rparr>)
             in (Inr tx_id, s2))"

subsection \<open>Sequences of transactions\<close>

fun create_transactions :: "store \<Rightarrow> transaction list \<Rightarrow> store" where
  \<comment> \<open>the store after one \<^verbatim>\<open>POST /transactions\<close> for each element, in order\<close>
  "create_transactions s [] = s"
| "create_transactions s (tx # txs) = create_transactions (snd (create_transaction s tx)) txs"

definition reward_ids_ok :: "store \<Rightarrow> bool" where
  \<comment> \<open>what the store guarantees of \<^verbatim>\<open>_id\<close> in the reward collection: no two documents
      share one, and none is an identifier still to be handed out\<close>
  "reward_ids_ok s =
     (distinct (map fst (colls s ''reward'')) \<and>
      list_all (\<lambda>kd. fst kd < next_oid s) (colls s ''reward''))"

subsection \<open>The listing search as the specification words it\<close>

definition lower :: "char \<Rightarrow> char" where
  "lower c = (let n = (of_char c :: nat) in if 65 \<le> n \<and> n \<le> 90 then char_of (n + 32) else c)"







subsection \<open>Example data\<close>

fun match_here :: "string \<Rightarrow> string \<Rightarrow> bool" where
  "match_here [] t = True"
| "match_here (p # ps) [] = False"
| "match_here (p # ps) (c # cs) =
     ((if p = CHR ''.'' then c \<noteq> CHR 0x0A else lower p = lower c) \<and> match_here ps cs)"

fun regex_lit_dot :: "string \<Rightarrow> string \<Rightarrow> bool" where
  \<comment> \<open>regular-expression search, letter case ignored, for the patterns made of letters,
      digits, spaces and \<^verbatim>\<open>.\<close> (any character but a line feed)\<close>
  "regex_lit_dot p [] = match_here p []"
| "regex_lit_dot p (c # cs) = (match_here p (c # cs) \<or> regex_lit_dot p cs)"

definition tesla :: car where
  "tesla =
     \<lparr>car_owner_email = ''owner@cars.io'', car_title = ''Tesla Model S'', car_brand = ''Tesla'',
      car_model = ''Model S'', car_year = 2021, car_images = [], car_location = ''Oslo'',
      car_car_type = ''electric'', car_transmission = ''automatic'', car_fuel = ''electric'',
      car_mileage = None, car_color = None, car_for_rent = True, car_for_sale = False,
      car_price_per_day = Some 120, car_sale_price = None, car_description = None,
      car_available = True\<rparr>"

definition rental :: order where
  "rental =
     \<lparr>ord_order_type = ''rent'', ord_car_id = ''000000000000000000000001'',
      ord_customer_email = ''ann@mail.io'', ord_owner_email = ''owner@cars.io'',
      ord_status = ''completed'', ord_start_date = None, ord_end_date = None,
      ord_pickup_location = None, ord_total_amount = 360\<rparr>"

definition payment :: "string \<Rightarrow> real \<Rightarrow> transaction" where
  "payment email amount =
     \<lparr>tx_order_id = ''000000000000000000000002'', tx_customer_email = email,
      tx_owner_email = ''owner@cars.io'', tx_amount = amount, tx_currency = ''USD'',
      tx_type = ''debit'', tx_description = None\<rparr>"

definition shop :: store where
  \<comment> \<open>one car, one completed order for it, and a reward record of 150 points\<close>
  "shop =
     \<lparr>colls = (\<lambda>name. [])
        (''car'' := [(1, car_dump tesla)],
         ''order'' := [(2, order_dump rental)],
         ''reward'' := [(3, reward_dump
            \<lparr>rwd_email = ''ann@mail.io'', rwd_points = 150, rwd_tier = ''Gold''\<rparr>)]),
      regex_i = regex_lit_dot,
      next_oid = 4\<rparr>"


section \<open>Properties\<close>

subsection \<open>Queries, updates and identifiers\<close>

lemma id_filter_matches [simp]:
  "doc_matches rx [(''_id'', Field (Eq (VOid k)))] kd = (fst kd = k)"
  by (auto simp: doc_matches_def get_field_def val_eq_def)

lemma id_filter_fun:
  "doc_matches rx [(''_id'', Field (Eq (VOid k)))] = (\<lambda>kd. fst kd = k)"
  by (rule ext) simp

lemma find_one_None_iff:
  "find_one s name f = None \<longleftrightarrow> (\<forall>kd \<in> set (colls s name). \<not> doc_matches (regex_i s) f kd)"
proof -
  have "find_one s name f = None \<longleftrightarrow> find s name f = []"
    by (simp add: find_one_def split: list.splits)
  then show ?thesis by (simp add: find_def filter_empty_conv)
qed

lemma find_one_SomeD:
  "find_one s name f = Some kd \<Longrightarrow> kd \<in> set (colls s name) \<and> doc_matches (regex_i s) f kd"
proof -
  assume "find_one s name f = Some kd"
  then obtain rest where "filter (doc_matches (regex_i s) f) (colls s name) = kd # rest"
    by (auto simp: find_one_def find_def split: list.splits)
  then have "kd \<in> set (filter (doc_matches (regex_i s) f) (colls s name))" by simp
  then show ?thesis by simp
qed

lemma find_one_by_id_None:
  "find_one s name [(''_id'', Field (Eq (VOid k)))] = None \<longleftrightarrow> k \<notin> fst ` set (colls s name)"
  by (auto simp: find_one_None_iff)

lemma find_one_by_id_Some:
  "k \<in> fst ` set (colls s name) \<Longrightarrow> \<exists>kd. find_one s name [(''_id'', Field (Eq (VOid k)))] = Some kd"
  using find_one_by_id_None [of s name k] by (cases "find_one s name [(''_id'', Field (Eq (VOid k)))]") auto

lemma find_one_other_coll:
  "name' \<noteq> name \<Longrightarrow>
   find_one (s\<lparr>colls := (colls s)(name' := c), next_oid := n\<rparr>) name f = find_one s name f"
  by (simp add: find_one_def find_def)


lemma update_first_distinct:
  "distinct (map fst c) \<Longrightarrow> (k, d) \<in> set c \<Longrightarrow>
   update_first (\<lambda>kd. fst kd = k) upd c =
     map (\<lambda>kd. if fst kd = k then (k, apply_set upd d) else kd) c"
proof (induction c)
  case Nil
  then show ?case by simp
next
  case (Cons x c)
  show ?case
  proof (cases "fst x = k")
    case True
    with Cons.prems have "x = (k, d)" by (cases x) (auto simp: image_iff)
    moreover from True Cons.prems have "\<forall>kd \<in> set c. fst kd \<noteq> k" by (auto simp: image_iff)
    then have "map (\<lambda>kd. if fst kd = k then (k, apply_set upd d) else kd) c = c"
      by (induction c) auto
    ultimately show ?thesis by simp
  next
    case False
    with Cons show ?thesis by auto
  qed
qed

lemma map_fst_update_first [simp]: "map fst (update_first P upd c) = map fst c"
  by (induction c) auto

lemma update_one_by_id:
  "update_one s name [(''_id'', Field (Eq (VOid k)))] upd =
     ((if k \<in> fst ` set (colls s name) then 1 else 0),
      s\<lparr>colls := (colls s)(name := update_first (\<lambda>kd. fst kd = k) upd (colls s name))\<rparr>)"
  by (auto simp: update_one_def id_filter_fun list_ex_iff Let_def)

lemma create_document_eq:
  "create_document s name d =
     (oid_str (next_oid s),
      s\<lparr>colls := (colls s)(name := colls s name @ [(next_oid s, d)]),
        next_oid := Suc (next_oid s)\<rparr>)"
  by (simp add: create_document_def insert_one_def)

lemma apply_set_points:
  "map_of (apply_set [(''points'', v), (''tier'', t)] d) =
     (map_of d)(''points'' \<mapsto> v, ''tier'' \<mapsto> t)"
  by (simp add: apply_set_def AList.update_conv')

lemma oid_str_4: "oid_str 4 = ''000000000000000000000004''"
  by code_simp

lemma ObjectId_1: "ObjectId ''000000000000000000000001'' = Some 1"
  by (simp add: ObjectId_def hex_val_def)




subsection \<open>Points earned by a transaction\<close>

lemma py_int_of_int: "py_int (of_int n) = n"
  by (simp add: py_int_def)

lemma max_one_of_int: "max (1::real) (of_int n) = of_int (max 1 n)"
  by (simp add: max_def)

lemma earned_points_eq: "earned_points x = max 1 \<lfloor>x / 10\<rfloor>"
  unfolding earned_points_def py_floordiv_def
  by (simp only: max_one_of_int py_int_of_int)

lemma earned_points_pos: "1 \<le> earned_points a"
  by (simp add: earned_points_eq)



subsection \<open>Creating a car\<close>

text \<open>
  C7. Car creation fails with the validation error exactly when \<open>for_rent\<close> and
  \<open>for_sale\<close> are both false, and then the store is as it was; otherwise the car's
  document is appended to the car collection and the new document's identifier is
  returned.
\<close>

theorem create_car_validation:
  "(fst (create_car s c) = Inl Validation \<longleftrightarrow> \<not> car_for_rent c \<and> \<not> car_for_sale c) \<and>
   (\<not> car_for_rent c \<and> \<not> car_for_sale c \<longrightarrow> create_car s c = (Inl Validation, s)) \<and>
   (car_for_rent c \<or> car_for_sale c \<longrightarrow>
      create_car s c =
        (Inr (oid_str (next_oid s)),
         s\<lparr>colls := (colls s)(''car'' := colls s ''car'' @ [(next_oid s, car_dump c)]),
           next_oid := Suc (next_oid s)\<rparr>))"
  by (auto simp: create_car_def create_document_eq)

theorem create_car_validation_witness:
  "create_car shop (tesla\<lparr>car_for_rent := False\<rparr>) = (Inl Validation, shop) \<and>
   fst (create_car shop tesla) = Inr ''000000000000000000000004'' \<and>
   colls (snd (create_car shop tesla)) ''car'' = [(1, car_dump tesla), (4, car_dump tesla)]"
  using create_car_validation [of shop "tesla\<lparr>car_for_rent := False\<rparr>"]
    create_car_validation [of shop tesla]
  by (simp add: tesla_def shop_def oid_str_4)

subsection \<open>Searching the listings\<close>























subsection \<open>Creating an order\<close>

text \<open>
  C6. When the order's \<open>car_id\<close> parses to the identifier of a car in the store, order
  creation appends exactly one order document, the dict of the payload's fields as the
  caller gave them, and exactly one notification, addressed to the order's
  \<open>owner_email\<close> with the message \<^verbatim>\<open>You have a new <order_type> request\<close>, and
  returns the identifier of the new order document. Nothing else in the store changes.
\<close>

theorem create_order_success:
  assumes "ObjectId (ord_car_id ord) = Some k" and "k \<in> fst ` set (colls s ''car'')"
  shows "create_order s ord =
     (Inr (oid_str (next_oid s)),
      s\<lparr>colls := (colls s)
           (''order'' := colls s ''order'' @ [(next_oid s, order_dump ord)],
            ''notification'' := colls s ''notification'' @
               [(Suc (next_oid s),
                 [(''email'', VStr (ord_owner_email ord)),
                  (''title'', VStr ''New order''),
                  (''message'', VStr (''You have a new '' @ ord_order_type ord @ '' request'')),
                  (''read'', VBool False)])]),
        next_oid := Suc (Suc (next_oid s))\<rparr>)"
proof -
  from assms(2) obtain c where "find_one s ''car'' [(''_id'', Field (Eq (VOid k)))] = Some c"
    using find_one_by_id_Some by blast
  then show ?thesis
    by (simp add: create_order_def assms(1) create_document_eq notification_dump_def)
qed

theorem create_order_success_witness:
  "fst (create_order shop rental) = Inr ''000000000000000000000004'' \<and>
   colls (snd (create_order shop rental)) ''order'' =
     [(2, order_dump rental), (4, order_dump rental)] \<and>
   colls (snd (create_order shop rental)) ''notification'' =
     [(5, [(''email'', VStr ''owner@cars.io''), (''title'', VStr ''New order''),
           (''message'', VStr ''You have a new rent request''), (''read'', VBool False)])]"
  using create_order_success [of rental 1 shop] ObjectId_1
  by (simp add: rental_def shop_def oid_str_4)




subsection \<open>Updating the status of an order\<close>





subsection \<open>Listing orders\<close>

text \<open>
  C10. When the role is absent or is neither \<^verbatim>\<open>customer\<close> nor \<^verbatim>\<open>owner\<close>, the order
  listing ignores the email and returns every order of the store.
\<close>

theorem list_orders_unfiltered:
  assumes "role \<noteq> Some ''customer''" and "role \<noteq> Some ''owner''"
  shows "list_orders (Some s) email role = map with_id (colls s ''order'')"
  using assms by (simp add: list_orders_def find_def doc_matches_def)

theorem list_orders_unfiltered_witness:
  "list_orders (Some shop) (Some ''zed@mail.io'') None = [with_id (2, order_dump rental)] \<and>
   list_orders (Some shop) (Some ''zed@mail.io'') (Some ''admin'') = [with_id (2, order_dump rental)] \<and>
   list_orders (Some shop) (Some ''zed@mail.io'') (Some ''customer'') = []"
  using list_orders_unfiltered [of None shop "Some ''zed@mail.io''"]
    list_orders_unfiltered [of "Some ''admin''" shop "Some ''zed@mail.io''"]
  by (simp add: shop_def)
    (simp add: list_orders_def if_str_def find_def doc_matches_def get_field_def order_dump_def
      rental_def val_eq_def)

subsection \<open>Recording a transaction\<close>

lemma tier_of_int:
  "tier_of (of_int n) =
     (if 200 \<le> n then ''Platinum'' else if 120 \<le> n then ''Gold''
      else if 60 \<le> n then ''Silver'' else ''Bronze'')"
  by (simp add: tier_of_def)

lemma shop_reward_ann:
  "find_one shop ''reward'' [(''email'', Field (Eq (VStr ''ann@mail.io'')))] =
     Some (3, [(''email'', VStr ''ann@mail.io''), (''points'', VInt 150), (''tier'', VStr ''Gold'')])"
  by (simp add: find_one_def find_def shop_def doc_matches_def get_field_def reward_dump_def
      val_eq_def)

lemma shop_reward_bob:
  "find_one shop ''reward'' [(''email'', Field (Eq (VStr ''bob@mail.io'')))] = None"
  by (simp add: find_one_def find_def shop_def doc_matches_def get_field_def reward_dump_def
      val_eq_def)

text \<open>
  C3. When the lookup by the transaction's \<open>customer_email\<close> finds no reward record,
  transaction creation appends a reward record for that email whose points are the
  earned points and whose tier is Bronze, whatever the earned points are; a first
  transaction of 1000 gives 100 points at tier Bronze.
\<close>

theorem create_transaction_first:
  assumes "find_one s ''reward'' [(''email'', Field (Eq (VStr (tx_customer_email tx))))] = None"
  shows "create_transaction s tx =
     (Inr (oid_str (next_oid s)),
      s\<lparr>colls := (colls s)
           (''transaction'' := colls s ''transaction'' @ [(next_oid s, transaction_dump tx)],
            ''reward'' := colls s ''reward'' @
               [(Suc (next_oid s),
                 [(''email'', VStr (tx_customer_email tx)),
                  (''points'', VInt (earned_points (tx_amount tx))),
                  (''tier'', VStr ''Bronze'')])]),
        next_oid := Suc (Suc (next_oid s))\<rparr>)"
proof -
  let ?s1 = "s\<lparr>colls := (colls s)
      (''transaction'' := colls s ''transaction'' @ [(next_oid s, transaction_dump tx)]),
      next_oid := Suc (next_oid s)\<rparr>"
  have "find_one ?s1 ''reward'' [(''email'', Field (Eq (VStr (tx_customer_email tx))))] = None"
    using assms by (simp add: find_one_other_coll)
  then show ?thesis
    by (simp add: create_transaction_def create_document_eq reward_dump_def)
qed

theorem create_transaction_first_witness:
  "fst (create_transaction shop (payment ''bob@mail.io'' 1000)) = Inr ''000000000000000000000004'' \<and>
   colls (snd (create_transaction shop (payment ''bob@mail.io'' 1000))) ''reward'' =
     [(3, [(''email'', VStr ''ann@mail.io''), (''points'', VInt 150), (''tier'', VStr ''Gold'')]),
      (5, [(''email'', VStr ''bob@mail.io''), (''points'', VInt 100), (''tier'', VStr ''Bronze'')])]"
  using create_transaction_first [of shop "payment ''bob@mail.io'' 1000"] shop_reward_bob
  by (simp add: payment_def earned_points_eq) (simp add: shop_def reward_dump_def oid_str_4)

text \<open>
  C2. When the lookup by the transaction's \<open>customer_email\<close> finds a reward record
  with \<open>p\<close> points, transaction creation replaces that record's points by \<open>p\<close> plus
  the earned points and its tier by the one of the new total: Platinum from 200, Gold
  from 120, Silver from 60, Bronze below. Every other reward record stays as it is.
  With 150 points and an amount of 600 the record holds 210 points at tier Platinum.
\<close>

theorem create_transaction_existing:
  assumes "find_one s ''reward'' [(''email'', Field (Eq (VStr (tx_customer_email tx))))] = Some (k, d)"
    and "map_of d ''points'' = Some (VInt p)"
    and "distinct (map fst (colls s ''reward''))"
  shows "create_transaction s tx =
     (let n = p + earned_points (tx_amount tx);
          tier = (if 200 \<le> n then ''Platinum'' else if 120 \<le> n then ''Gold''
                  else if 60 \<le> n then ''Silver'' else ''Bronze'')
      in (Inr (oid_str (next_oid s)),
          s\<lparr>colls := (colls s)
               (''transaction'' := colls s ''transaction'' @ [(next_oid s, transaction_dump tx)],
                ''reward'' := map (\<lambda>kd. if fst kd = k
                     then (k, AList.update ''tier'' (VStr tier) (AList.update ''points'' (VInt n) d))
                     else kd) (colls s ''reward'')),
            next_oid := Suc (next_oid s)\<rparr>))"
proof -
  let ?s1 = "s\<lparr>colls := (colls s)
      (''transaction'' := colls s ''transaction'' @ [(next_oid s, transaction_dump tx)]),
      next_oid := Suc (next_oid s)\<rparr>"
  have f: "find_one ?s1 ''reward'' [(''email'', Field (Eq (VStr (tx_customer_email tx))))] = Some (k, d)"
    using assms(1) by (simp add: find_one_other_coll)
  have mem: "(k, d) \<in> set (colls s ''reward'')"
    using assms(1) by (auto dest: find_one_SomeD)
  have g: "get_field (k, d) ''points'' = Some (VInt p)"
    using assms(2) by (simp add: get_field_def)
  let ?n = "p + earned_points (tx_amount tx)"
  let ?T = "if 200 \<le> ?n then ''Platinum'' else if 120 \<le> ?n then ''Gold''
            else if 60 \<le> ?n then ''Silver'' else ''Bronze''"
  have pa: "py_add (VInt p) (earned_points (tx_amount tx)) = Some (VInt ?n)"
    by (simp add: py_add_def)
  have tt: "tier_of (of_int ?n) = ?T"
    by (rule tier_of_int)
  have u: "update_first (\<lambda>kd. fst kd = k) [(''points'', VInt ?n), (''tier'', VStr ?T)]
        (colls s ''reward'') =
      map (\<lambda>kd. if fst kd = k
             then (k, AList.update ''tier'' (VStr ?T) (AList.update ''points'' (VInt ?n) d))
             else kd) (colls s ''reward'')"
    using update_first_distinct [OF assms(3) mem] by (simp add: apply_set_def cong: if_cong)
  have "create_transaction s tx =
     (Inr (oid_str (next_oid s)),
      snd (update_one ?s1 ''reward'' [(''_id'', Field (Eq (VOid k)))]
             [(''points'', VInt ?n), (''tier'', VStr ?T)]))"
    by (simp add: create_transaction_def create_document_eq f g pa tt Let_def split_def
        del: of_int_add)
  also have "snd (update_one ?s1 ''reward'' [(''_id'', Field (Eq (VOid k)))]
             [(''points'', VInt ?n), (''tier'', VStr ?T)]) =
      s\<lparr>colls := (colls s)
               (''transaction'' := colls s ''transaction'' @ [(next_oid s, transaction_dump tx)],
                ''reward'' := map (\<lambda>kd. if fst kd = k
                     then (k, AList.update ''tier'' (VStr ?T) (AList.update ''points'' (VInt ?n) d))
                     else kd) (colls s ''reward'')),
            next_oid := Suc (next_oid s)\<rparr>"
    by (simp add: update_one_by_id u)
  finally show ?thesis by (simp add: Let_def)
qed

theorem create_transaction_existing_witness:
  "colls (snd (create_transaction shop (payment ''ann@mail.io'' 600))) ''reward'' =
     [(3, [(''email'', VStr ''ann@mail.io''), (''points'', VInt 210), (''tier'', VStr ''Platinum'')])]"
  using create_transaction_existing [of shop "payment ''ann@mail.io'' 600" 3
      "[(''email'', VStr ''ann@mail.io''), (''points'', VInt 150), (''tier'', VStr ''Gold'')]" 150]
    shop_reward_ann
  by (simp add: payment_def earned_points_eq) (simp add: shop_def reward_dump_def oid_str_4)

subsection \<open>Sequences of transactions\<close>

lemma rewards_after_transaction:
  "colls (snd (create_transaction s tx)) ''reward'' =
     (case find_one s ''reward'' [(''email'', Field (Eq (VStr (tx_customer_email tx))))] of
        None \<Rightarrow> colls s ''reward'' @
          [(Suc (next_oid s),
            reward_dump \<lparr>rwd_email = tx_customer_email tx,
              rwd_points = earned_points (tx_amount tx), rwd_tier = ''Bronze''\<rparr>)]
      | Some ex \<Rightarrow>
          (case py_add (case get_field ex ''points'' of None \<Rightarrow> VInt 0 | Some v \<Rightarrow> v)
                  (earned_points (tx_amount tx)) of
             None \<Rightarrow> colls s ''reward''
           | Some np \<Rightarrow>
               update_first (\<lambda>kd. fst kd = fst ex)
                 [(''points'', np),
                  (''tier'', VStr (tier_of (case num_of np of Some r \<Rightarrow> r | None \<Rightarrow> 0)))]
                 (colls s ''reward'')))"
  by (simp add: create_transaction_def create_document_eq find_one_other_coll update_one_by_id
      Let_def split_def split: option.splits)

lemma next_oid_after_transaction:
  "next_oid (snd (create_transaction s tx)) =
     (case find_one s ''reward'' [(''email'', Field (Eq (VStr (tx_customer_email tx))))] of
        None \<Rightarrow> Suc (Suc (next_oid s)) | Some ex \<Rightarrow> Suc (next_oid s))"
  by (simp add: create_transaction_def create_document_eq find_one_other_coll update_one_by_id
      Let_def split_def split: option.splits)

lemma reward_ids_ok_alt:
  "reward_ids_ok s =
     (distinct (map fst (colls s ''reward'')) \<and>
      (\<forall>k \<in> set (map fst (colls s ''reward'')). k < next_oid s))"
  by (auto simp: reward_ids_ok_def list_all_iff)

lemma reward_ids_after_transaction:
  "map fst (colls (snd (create_transaction s tx)) ''reward'') =
     (case find_one s ''reward'' [(''email'', Field (Eq (VStr (tx_customer_email tx))))] of
        None \<Rightarrow> map fst (colls s ''reward'') @ [Suc (next_oid s)]
      | Some ex \<Rightarrow> map fst (colls s ''reward''))"
  by (simp add: rewards_after_transaction split: option.splits)

lemma reward_ids_ok_step:
  assumes "reward_ids_ok s"
  shows "reward_ids_ok (snd (create_transaction s tx))"
  using assms
  unfolding reward_ids_ok_alt reward_ids_after_transaction next_oid_after_transaction
  by (fastforce split: option.splits)

lemma reward_points_step:
  assumes ok: "reward_ids_ok s"
    and mem: "(k, d) \<in> set (colls s ''reward'')"
    and pts: "map_of d ''points'' = Some (VInt p)"
  shows "\<exists>d' p'. (k, d') \<in> set (colls (snd (create_transaction s tx)) ''reward'') \<and>
           map_of d' ''points'' = Some (VInt p') \<and> p \<le> p' \<and>
           map_of d' ''email'' = map_of d ''email''"
proof (cases "find_one s ''reward'' [(''email'', Field (Eq (VStr (tx_customer_email tx))))]")
  case None
  with mem pts show ?thesis
    by (auto simp: rewards_after_transaction)
next
  case (Some ex)
  let ?v = "case get_field ex ''points'' of None \<Rightarrow> VInt 0 | Some v \<Rightarrow> v"
  show ?thesis
  proof (cases "py_add ?v (earned_points (tx_amount tx))")
    case None
    with Some mem pts show ?thesis
      by (auto simp: rewards_after_transaction)
  next
    case np: (Some np)
    let ?upd = "[(''points'', np),
        (''tier'', VStr (tier_of (case num_of np of Some r \<Rightarrow> r | None \<Rightarrow> 0)))]"
    obtain k0 d0 where ex: "ex = (k0, d0)" by (cases ex)
    have mem0: "(k0, d0) \<in> set (colls s ''reward'')"
      using Some ex by (auto dest: find_one_SomeD)
    have dist: "distinct (map fst (colls s ''reward''))"
      using ok by (simp add: reward_ids_ok_def)
    have after: "colls (snd (create_transaction s tx)) ''reward'' =
        map (\<lambda>kd. if fst kd = k0 then (k0, apply_set ?upd d0) else kd) (colls s ''reward'')"
      using update_first_distinct [OF dist mem0, of ?upd] Some np ex
      by (simp add: rewards_after_transaction)
    show ?thesis
    proof (cases "k = k0")
      case True
      have "d = d0"
        using dist mem mem0 True by (metis eq_key_imp_eq_value)
      with pts ex have "?v = VInt p"
        by (simp add: get_field_def)
      with np have npv: "np = VInt (p + earned_points (tx_amount tx))"
        by (simp add: py_add_def)
      have "(k, apply_set ?upd d0) \<in> set (colls (snd (create_transaction s tx)) ''reward'')"
        unfolding after using mem0 True by force
      moreover have "map_of (apply_set ?upd d0) ''points'' =
          Some (VInt (p + earned_points (tx_amount tx)))"
        by (simp add: apply_set_points npv)
      moreover have "p \<le> p + earned_points (tx_amount tx)"
        using earned_points_pos [of "tx_amount tx"] by simp
      moreover have "map_of (apply_set ?upd d0) ''email'' = map_of d ''email''"
        using \<open>d = d0\<close> by (simp add: apply_set_points)
      ultimately show ?thesis by blast
    next
      case False
      then have "(k, d) \<in> set (colls (snd (create_transaction s tx)) ''reward'')"
        unfolding after using mem by force
      with pts show ?thesis by auto
    qed
  qed
qed

lemma shop_two_payments:
  "colls (create_transactions shop [payment ''ann@mail.io'' (- 50), payment ''ann@mail.io'' 95])
     ''reward'' =
   [(3, [(''email'', VStr ''ann@mail.io''), (''points'', VInt 160), (''tier'', VStr ''Gold'')])]"
  by code_simp

text \<open>
  C9. Over every sequence of transaction creations a reward record keeps its
  identifier and its email, and its points never go down, whatever the amounts are,
  negative ones included.
\<close>

theorem reward_points_monotone:
  assumes "reward_ids_ok s"
    and "(k, d) \<in> set (colls s ''reward'')"
    and "map_of d ''points'' = Some (VInt p)"
  shows "\<exists>d' p'. (k, d') \<in> set (colls (create_transactions s txs) ''reward'') \<and>
           map_of d' ''points'' = Some (VInt p') \<and> p \<le> p' \<and>
           map_of d' ''email'' = map_of d ''email''"
  using assms
proof (induction txs arbitrary: s d p)
  case Nil
  then show ?case by auto
next
  case (Cons tx txs)
  let ?s1 = "snd (create_transaction s tx)"
  from reward_points_step [OF Cons.prems, of tx]
  obtain d1 p1 where step: "(k, d1) \<in> set (colls ?s1 ''reward'')"
      "map_of d1 ''points'' = Some (VInt p1)" "p \<le> p1" "map_of d1 ''email'' = map_of d ''email''"
    by blast
  have "reward_ids_ok ?s1"
    using Cons.prems(1) by (rule reward_ids_ok_step)
  from Cons.IH [OF this step(1) step(2)]
  obtain d' p' where "(k, d') \<in> set (colls (create_transactions ?s1 txs) ''reward'')"
      "map_of d' ''points'' = Some (VInt p')" "p1 \<le> p'" "map_of d' ''email'' = map_of d1 ''email''"
    by blast
  with step show ?case
    by (auto intro!: exI [of _ d'] exI [of _ p'])
qed

theorem reward_points_monotone_witness:
  "reward_ids_ok shop \<and>
   (\<exists>d' p'. (3, d') \<in> set (colls (create_transactions shop
        [payment ''ann@mail.io'' (- 50), payment ''ann@mail.io'' 95]) ''reward'') \<and>
      map_of d' ''points'' = Some (VInt p') \<and> 150 \<le> p') \<and>
   colls (create_transactions shop [payment ''ann@mail.io'' (- 50), payment ''ann@mail.io'' 95])
     ''reward'' =
   [(3, [(''email'', VStr ''ann@mail.io''), (''points'', VInt 160), (''tier'', VStr ''Gold'')])]"
proof -
  have ok: "reward_ids_ok shop"
    by (simp add: reward_ids_ok_def shop_def)
  have mem: "(3, [(''email'', VStr ''ann@mail.io''), (''points'', VInt 150), (''tier'', VStr ''Gold'')])
      \<in> set (colls shop ''reward'')"
    by (simp add: shop_def reward_dump_def)
  have pts: "map_of [(''email'', VStr ''ann@mail.io''), (''points'', VInt 150),
      (''tier'', VStr ''Gold'')] ''points'' = Some (VInt 150)"
    by simp
  from reward_points_monotone [OF ok mem pts,
      of "[payment ''ann@mail.io'' (- 50), payment ''ann@mail.io'' 95]"]
  show ?thesis using ok shop_two_payments by blast
qed

end
